theory Spec2Isabelle
  imports Complex_Main "HOL-Library.Product_Lexorder"
begin

section \<open>Degree days (calculations.py)\<close>

text \<open>
  Python floats are modelled as reals: the degree-day functions only subtract and
  compare, and the claims about them are about temperatures. Python's
  \<open>max(0.0, diff)\<close> keeps its first argument unless the second is strictly greater.
\<close>

definition py_max2 :: "real \<Rightarrow> real \<Rightarrow> real" where
  "py_max2 a b = (if b > a then b else a)"

definition heating_degree_days :: "real \<Rightarrow> real \<Rightarrow> bool \<Rightarrow> real" where
  "heating_degree_days T T_base truncate =
     (let diff = T_base - T in
      if truncate then py_max2 0 diff else diff)"

definition cooling_degree_days :: "real \<Rightarrow> real \<Rightarrow> bool \<Rightarrow> real" where
  "cooling_degree_days T T_base truncate =
     (let diff = T - T_base in
      if truncate then py_max2 0 diff else diff)"

section \<open>Exceptions\<close>

text \<open>
  Every raise of the source is a value: \<open>ImportError\<close> and \<open>ValueError\<close> carry their
  message, \<open>OverflowError\<close> is raised by \<open>datetime\<close> for a year that does not fit a C int
  (its message depends on the platform and is left out), and \<open>LibraryError\<close> stands for
  an exception raised inside a library call (sqlite3, os, geopy, meteostat) and names it.
\<close>

datatype exn = ImportError string | ValueError string | OverflowError | LibraryError string

section \<open>The geocode cache (geocoding.py)\<close>

type_synonym coords = "real \<times> real"

text \<open>
  Table \<open>geopy (address TEXT PRIMARY KEY, latitude REAL, longitude REAL)\<close> as its list
  of rows. The four SQL statements the class executes:
  \<open>SELECT latitude, longitude ... WHERE address = ?\<close> with \<open>fetchone()\<close>,
  \<open>INSERT OR REPLACE\<close> (the row with the same key is deleted, the new row is added),
  \<open>DELETE FROM geopy\<close> and \<open>SELECT COUNT(*)\<close>.
\<close>

type_synonym geopy_table = "(string \<times> real \<times> real) list"

definition sql_select :: "geopy_table \<Rightarrow> string \<Rightarrow> coords option" where
  "sql_select t address =
     (case filter (\<lambda>r. fst r = address) t of [] \<Rightarrow> None | r # _ \<Rightarrow> Some (snd r))"

definition sql_insert_or_replace :: "geopy_table \<Rightarrow> string \<Rightarrow> real \<Rightarrow> real \<Rightarrow> geopy_table" where
  "sql_insert_or_replace t address latitude longitude =
     filter (\<lambda>r. fst r \<noteq> address) t @ [(address, latitude, longitude)]"

definition sql_delete_all :: "geopy_table \<Rightarrow> geopy_table" where
  "sql_delete_all t = []"

definition sql_count :: "geopy_table \<Rightarrow> nat" where
  "sql_count t = length t"

text \<open>
  A \<open>SimpleGeolocatorCache\<close> object: its path and the table behind its connection.
  The two flags say whether sqlite3 raises on a statement that reads and on one that
  writes (a closed connection, a locked, corrupt or read-only file, a full disk);
  a statement that raises leaves the table as it was.
\<close>

record SimpleGeolocatorCache =
  file_path :: string
  connection :: geopy_table
  select_raises :: bool
  insert_raises :: bool

definition primary_key :: "geopy_table \<Rightarrow> bool" where
  "primary_key t = distinct (map fst t)"

definition cached_address :: "SimpleGeolocatorCache \<Rightarrow> string \<Rightarrow> exn + coords option" where
  "cached_address self address =
     (if select_raises self then Inl (LibraryError ''sqlite3.Error'')
      else Inr (sql_select (connection self) address))"

definition cache_address ::
  "SimpleGeolocatorCache \<Rightarrow> string \<Rightarrow> real \<Rightarrow> real \<Rightarrow> exn + SimpleGeolocatorCache" where
  "cache_address self address latitude longitude =
     (if insert_raises self then Inl (LibraryError ''sqlite3.Error'')
      else Inr (self\<lparr>connection := sql_insert_or_replace (connection self) address latitude longitude\<rparr>))"

definition clear :: "SimpleGeolocatorCache \<Rightarrow> exn + SimpleGeolocatorCache" where
  "clear self =
     (if insert_raises self then Inl (LibraryError ''sqlite3.Error'')
      else Inr (self\<lparr>connection := sql_delete_all (connection self)\<rparr>))"

definition len :: "SimpleGeolocatorCache \<Rightarrow> exn + nat" where
  "len self =
     (if select_raises self then Inl (LibraryError ''sqlite3.Error'')
      else Inr (sql_count (connection self)))"

definition close :: "SimpleGeolocatorCache \<Rightarrow> SimpleGeolocatorCache" where
  "close self = self\<lparr>select_raises := True, insert_raises := True\<rparr>"

text \<open>A run of \<open>cache_address\<close> calls on one object, stopping at the first exception.\<close>

fun cache_addresses ::
  "SimpleGeolocatorCache \<Rightarrow> (string \<times> real \<times> real) list \<Rightarrow> exn + SimpleGeolocatorCache" where
  "cache_addresses self [] = Inr self"
| "cache_addresses self ((address, latitude, longitude) # rest) =
     (case cache_address self address latitude longitude of
        Inl e \<Rightarrow> Inl e
      | Inr self' \<Rightarrow> cache_addresses self' rest)"

section \<open>Geocoding with the cache (geocoding.py)\<close>

text \<open>
  The geopy import at module load either fails (\<open>_GEOPY_AVAILABLE = False\<close>,
  \<open>Nominatim = None\<close>) or gives the geocoder; \<open>geocoder.geocode(address)\<close> returns a
  location, returns \<open>None\<close>, or raises one of geopy's own exceptions (named by the string).
\<close>

datatype location = Location real real | NoLocation | GeocoderRaises string

datatype geopy_module = NotInstalled | Installed "string \<Rightarrow> location"

definition GEOPY_AVAILABLE :: "geopy_module \<Rightarrow> bool" where
  "GEOPY_AVAILABLE geopy = (case geopy of NotInstalled \<Rightarrow> False | Installed _ \<Rightarrow> True)"

definition GEOPY_MISSING_MSG :: string where
  "GEOPY_MISSING_MSG = ''geopy is required for geocoding.'' @ [CHR 0x0A] @ ''Install with: pip install geopy''"

text \<open>
  The module state: the singleton \<open>_geopy_cache\<close>; what
  \<open>SimpleGeolocatorCache(GEOLOCATOR_CACHE_PATH)\<close> gives when it is first built (the
  object over the rows of the file, or the exception of \<open>os.makedirs\<close>,
  \<open>sqlite3.connect\<close> or \<open>_init_schema\<close>); and a log of the calls made to the cache
  and to the geocoder, kept only to state which calls a run makes.
\<close>

datatype event = CacheRead string | CacheWrite string | ProviderCall string

record world =
  geopy_cache_global :: "SimpleGeolocatorCache option"
  cache_file :: "exn + SimpleGeolocatorCache"
  trace :: "event list"

definition geopy_geolocator :: "geopy_module \<Rightarrow> (string \<Rightarrow> location) option" where
  "geopy_geolocator geopy =
     (case geopy of NotInstalled \<Rightarrow> None | Installed nominatim \<Rightarrow> Some nominatim)"

definition geopy_cache :: "world \<Rightarrow> (exn + SimpleGeolocatorCache) \<times> world" where
  "geopy_cache w =
     (case geopy_cache_global w of
        Some c \<Rightarrow> (Inr c, w)
      | None \<Rightarrow>
          (case cache_file w of
             Inl e \<Rightarrow> (Inl e, w)
           | Inr c \<Rightarrow> (Inr c, w\<lparr>geopy_cache_global := Some c\<rparr>)))"

text \<open>
  The first \<open>try\<close> block of \<open>geocode\<close>: a hit, or the value the local variable
  \<open>cache\<close> holds afterwards (\<open>None\<close> once an exception was caught).
\<close>

datatype cache_try = Hit coords | Miss "SimpleGeolocatorCache option"

definition try_cache :: "world \<Rightarrow> string \<Rightarrow> cache_try \<times> world" where
  "try_cache w address =
     (case geopy_cache w of
        (Inl e, w1) \<Rightarrow> (Miss None, w1)
      | (Inr cache, w1) \<Rightarrow>
          (let w2 = w1\<lparr>trace := trace w1 @ [CacheRead address]\<rparr> in
           case cached_address cache address of
             Inl e \<Rightarrow> (Miss None, w2)
           | Inr (Some result) \<Rightarrow> (Hit result, w2)
           | Inr None \<Rightarrow> (Miss (Some cache), w2)))"

text \<open>The last \<open>try\<close> block: the write is skipped without a cache, and its exception is dropped.\<close>

definition cache_result :: "world \<Rightarrow> SimpleGeolocatorCache option \<Rightarrow> string \<Rightarrow> real \<Rightarrow> real \<Rightarrow> world" where
  "cache_result w cache address latitude longitude =
     (case cache of
        None \<Rightarrow> w
      | Some c \<Rightarrow>
          (let w1 = w\<lparr>trace := trace w @ [CacheWrite address]\<rparr> in
           case cache_address c address latitude longitude of
             Inl e \<Rightarrow> w1
           | Inr c' \<Rightarrow> w1\<lparr>geopy_cache_global := Some c'\<rparr>))"

definition geocode :: "geopy_module \<Rightarrow> world \<Rightarrow> string \<Rightarrow> (exn + coords) \<times> world" where
  "geocode geopy w address =
     (if \<not> GEOPY_AVAILABLE geopy then (Inl (ImportError GEOPY_MISSING_MSG), w)
      else
        case try_cache w address of
          (Hit result, w1) \<Rightarrow> (Inr result, w1)
        | (Miss cache, w1) \<Rightarrow>
            (case geopy_geolocator geopy of
               None \<Rightarrow> (Inl (ImportError GEOPY_MISSING_MSG), w1)
             | Some geocoder \<Rightarrow>
                 (let w2 = w1\<lparr>trace := trace w1 @ [ProviderCall address]\<rparr> in
                  case geocoder address of
                    GeocoderRaises e \<Rightarrow> (Inl (LibraryError e), w2)
                  | NoLocation \<Rightarrow> (Inl (ValueError (''Could not geocode: '' @ address)), w2)
                  | Location latitude longitude \<Rightarrow>
                      (Inr (latitude, longitude),
                       cache_result w2 cache address latitude longitude))))"

section \<open>Weather data (weather_data.py)\<close>

subsection \<open>Floats, timestamps and the daily table\<close>

text \<open>
  A float64 cell of a pandas table is a number or NaN, pandas' marker of a missing
  value. Numbers are reals here. Python compares floats as IEEE does: every comparison
  with NaN is false.
\<close>

datatype pyfloat = NaN | Num real

fun py_lt :: "pyfloat \<Rightarrow> pyfloat \<Rightarrow> bool" where
  "py_lt (Num a) (Num b) = (a < b)"
| "py_lt _ _ = False"

fun py_gt :: "pyfloat \<Rightarrow> pyfloat \<Rightarrow> bool" where
  "py_gt (Num a) (Num b) = (a > b)"
| "py_gt _ _ = False"

fun py_le :: "pyfloat \<Rightarrow> pyfloat \<Rightarrow> bool" where
  "py_le (Num a) (Num b) = (a \<le> b)"
| "py_le _ _ = False"

fun py_ge :: "pyfloat \<Rightarrow> pyfloat \<Rightarrow> bool" where
  "py_ge (Num a) (Num b) = (a \<ge> b)"
| "py_ge _ _ = False"

record datetime =
  dt_year :: int
  dt_month :: nat
  dt_day :: nat

fun digits :: "nat \<Rightarrow> string" where
  "digits n = (if n < 10 then [char_of (48 + n)] else digits (n div 10) @ [char_of (48 + n mod 10)])"

definition str_int :: "int \<Rightarrow> string" where
  "str_int i = (if i < 0 then CHR ''-'' # digits (nat (- i)) else digits (nat i))"

text \<open>
  \<open>datetime(year, month, day)\<close> first converts the year to a C int (32 bits) and raises
  OverflowError when it does not fit; for a year that fits but lies outside
  MINYEAR..MAXYEAR (1..9999) it raises ValueError, with CPython's message. The source
  only builds January 1 and December 31.
\<close>

definition datetime_new :: "int \<Rightarrow> nat \<Rightarrow> nat \<Rightarrow> exn + datetime" where
  "datetime_new y m d =
     (if y < - (2 ^ 31) \<or> 2 ^ 31 - 1 < y then Inl OverflowError
      else if 1 \<le> y \<and> y \<le> 9999 then Inr \<lparr>dt_year = y, dt_month = m, dt_day = d\<rparr>
      else Inl (ValueError (''year '' @ str_int y @ '' is out of range'')))"

text \<open>
  A row of the table \<open>get_daily_data\<close> returns, after \<open>reset_index()\<close>: the day and the
  two columns the source reads.
\<close>

record daily_row =
  time :: datetime
  temp :: pyfloat
  wspd :: pyfloat

type_synonym dataframe = "daily_row list"

text \<open>
  The meteostat import either fails or gives the library; \<open>ms.daily(station, start,
  end).fetch(units)\<close> returns a table, returns None, or raises one of the library's
  exceptions (named by the string). \<open>get_daily_data\<close> is called here with datetimes
  only, so its conversion of ISO strings is left out.
\<close>

record meteostat =
  METEOSTAT_AVAILABLE :: bool
  daily :: "string \<Rightarrow> datetime \<Rightarrow> datetime \<Rightarrow> bool \<Rightarrow> string + dataframe option"

definition METEOSTAT_MISSING_MSG :: string where
  "METEOSTAT_MISSING_MSG =
     ''meteostat is required for this functionality.'' @ [CHR 0x0A] @ ''Install with: pip install meteostat''"

definition check_meteostat :: "meteostat \<Rightarrow> exn + unit" where
  "check_meteostat ms =
     (if \<not> METEOSTAT_AVAILABLE ms then Inl (ImportError METEOSTAT_MISSING_MSG) else Inr ())"

definition get_daily_data ::
  "meteostat \<Rightarrow> string \<Rightarrow> datetime \<Rightarrow> datetime \<Rightarrow> bool \<Rightarrow> exn + dataframe option" where
  "get_daily_data ms station_id start stop si_units =
     (case check_meteostat ms of
        Inl e \<Rightarrow> Inl e
      | Inr _ \<Rightarrow>
          (case daily ms station_id start stop si_units of
             Inl e \<Rightarrow> Inl (LibraryError e)
           | Inr df \<Rightarrow> Inr df))"

subsection \<open>The pandas operations the source calls\<close>

text \<open>
  \<open>count\<close> is the number of cells that are not NaN; \<open>mean\<close> skips NaN and is NaN when
  nothing is left. \<open>groupby\<close> makes one group per key that occurs, in ascending key
  order. \<open>Series.get(m)\<close> is the value at index m (which may be NaN), or None when m is
  not in the index.
\<close>

fun valid_values :: "pyfloat list \<Rightarrow> real list" where
  "valid_values [] = []"
| "valid_values (NaN # xs) = valid_values xs"
| "valid_values (Num x # xs) = x # valid_values xs"

definition pd_count :: "pyfloat list \<Rightarrow> nat" where
  "pd_count xs = length (valid_values xs)"

definition pd_mean :: "pyfloat list \<Rightarrow> pyfloat" where
  "pd_mean xs =
     (let vs = valid_values xs in
      if vs = [] then NaN else Num (sum_list vs / real (length vs)))"

definition year_month :: "daily_row \<Rightarrow> int \<times> nat" where
  "year_month r = (dt_year (time r), dt_month (time r))"

record grouped_row =
  year :: int
  month :: nat
  col_mean :: pyfloat
  col_count :: nat

definition groupby_year_month :: "(daily_row \<Rightarrow> pyfloat) \<Rightarrow> dataframe \<Rightarrow> grouped_row list" where
  "groupby_year_month col df =
     map (\<lambda>k. let cells = map col (filter (\<lambda>r. year_month r = k) df) in
              \<lparr>year = fst k, month = snd k, col_mean = pd_mean cells, col_count = pd_count cells\<rparr>)
         (sort (remdups (map year_month df)))"

definition mask_min_days :: "int \<Rightarrow> grouped_row list \<Rightarrow> grouped_row list" where
  "mask_min_days min_days grouped =
     map (\<lambda>g. if int (col_count g) < min_days then g\<lparr>col_mean := NaN\<rparr> else g) grouped"

definition groupby_month_mean :: "grouped_row list \<Rightarrow> (nat \<times> pyfloat) list" where
  "groupby_month_mean grouped =
     map (\<lambda>m. (m, pd_mean (map col_mean (filter (\<lambda>g. month g = m) grouped))))
         (sort (remdups (map month grouped)))"

definition series_get :: "(nat \<times> pyfloat) list \<Rightarrow> nat \<Rightarrow> pyfloat option" where
  "series_get monthly m = map_of monthly m"

subsection \<open>Monthly averages\<close>

text \<open>
  \<open>month_average_temperature\<close> and \<open>month_average_windspeed\<close> have the same body from the
  test of the fetched table on (lines 242-260 and 297-313), on column \<open>temp\<close> and on
  column \<open>wspd\<close>; \<open>monthly_profile\<close> is that body with the column as a parameter.
\<close>

definition monthly_profile :: "(daily_row \<Rightarrow> pyfloat) \<Rightarrow> dataframe option \<Rightarrow> int \<Rightarrow> pyfloat option list" where
  "monthly_profile col df min_days =
     (case df of
        None \<Rightarrow> replicate 12 None
      | Some rows \<Rightarrow>
          if rows = [] then replicate 12 None
          else
            let grouped = mask_min_days min_days (groupby_year_month col rows);
                monthly = groupby_month_mean grouped
            in map (series_get monthly) [1..<13])"

definition month_average ::
  "(daily_row \<Rightarrow> pyfloat) \<Rightarrow> meteostat \<Rightarrow> string \<Rightarrow> int \<Rightarrow> int \<Rightarrow> int \<Rightarrow> bool
     \<Rightarrow> exn + pyfloat option list" where
  "month_average col ms station_id start_year end_year min_days si_units =
     (case check_meteostat ms of
        Inl e \<Rightarrow> Inl e
      | Inr _ \<Rightarrow>
     (case datetime_new start_year 1 1 of
        Inl e \<Rightarrow> Inl e
      | Inr start \<Rightarrow>
     (case datetime_new end_year 12 31 of
        Inl e \<Rightarrow> Inl e
      | Inr stop \<Rightarrow>
     (case get_daily_data ms station_id start stop si_units of
        Inl e \<Rightarrow> Inl e
      | Inr df \<Rightarrow> Inr (monthly_profile col df min_days)))))"

definition month_average_temperature ::
  "meteostat \<Rightarrow> string \<Rightarrow> int \<Rightarrow> int \<Rightarrow> int \<Rightarrow> bool \<Rightarrow> exn + pyfloat option list" where
  "month_average_temperature = month_average temp"

definition month_average_windspeed ::
  "meteostat \<Rightarrow> string \<Rightarrow> int \<Rightarrow> int \<Rightarrow> int \<Rightarrow> bool \<Rightarrow> exn + pyfloat option list" where
  "month_average_windspeed = month_average wspd"

subsection \<open>Coldest and warmest month\<close>

text \<open>
  \<open>[(i, t) for i, t in enumerate(temps) if t is not None]\<close>, and Python's \<open>min\<close> and
  \<open>max\<close> with a key: the first item is kept until a later one has a strictly smaller
  (for \<open>max\<close>, strictly greater) key.
\<close>

fun valid_from :: "nat \<Rightarrow> pyfloat option list \<Rightarrow> (nat \<times> pyfloat) list" where
  "valid_from i [] = []"
| "valid_from i (None # ts) = valid_from (Suc i) ts"
| "valid_from i (Some t # ts) = (i, t) # valid_from (Suc i) ts"

fun min_by_value :: "nat \<times> pyfloat \<Rightarrow> (nat \<times> pyfloat) list \<Rightarrow> nat \<times> pyfloat" where
  "min_by_value best [] = best"
| "min_by_value best (x # xs) = min_by_value (if py_lt (snd x) (snd best) then x else best) xs"

fun max_by_value :: "nat \<times> pyfloat \<Rightarrow> (nat \<times> pyfloat) list \<Rightarrow> nat \<times> pyfloat" where
  "max_by_value best [] = best"
| "max_by_value best (x # xs) = max_by_value (if py_gt (snd x) (snd best) then x else best) xs"

definition coldest_month ::
  "meteostat \<Rightarrow> string \<Rightarrow> int \<Rightarrow> int option \<Rightarrow> int \<Rightarrow> bool \<Rightarrow> exn + nat \<times> pyfloat" where
  "coldest_month ms station_id start_year end_year min_days si_units =
     (let end_year = (case end_year of None \<Rightarrow> start_year | Some y \<Rightarrow> y) in
      case month_average_temperature ms station_id start_year end_year min_days si_units of
        Inl e \<Rightarrow> Inl e
      | Inr temps \<Rightarrow>
          (case valid_from 0 temps of
             [] \<Rightarrow> Inl (ValueError ''No valid temperature data'')
           | v # vs \<Rightarrow> Inr (min_by_value v vs)))"

definition warmest_month ::
  "meteostat \<Rightarrow> string \<Rightarrow> int \<Rightarrow> int option \<Rightarrow> int \<Rightarrow> bool \<Rightarrow> exn + nat \<times> pyfloat" where
  "warmest_month ms station_id start_year end_year min_days si_units =
     (let end_year = (case end_year of None \<Rightarrow> start_year | Some y \<Rightarrow> y) in
      case month_average_temperature ms station_id start_year end_year min_days si_units of
        Inl e \<Rightarrow> Inl e
      | Inr temps \<Rightarrow>
          (case valid_from 0 temps of
             [] \<Rightarrow> Inl (ValueError ''No valid temperature data'')
           | v # vs \<Rightarrow> Inr (max_by_value v vs)))"

section \<open>Notions used to state the aggregation properties\<close>

text \<open>
  For a column, a table, a year and a month: the cells of the records of that year and
  month; the years that have a record in the month, ascending; the number of valid (not
  NaN) cells; and the mean of the valid cells. A year contributes to a month when its
  valid count reaches \<open>min_days\<close> and is at least one. \<open>qualifying_years\<close> is the
  condition without the second part, and \<open>arithmetic_mean\<close> is the plain mean
  \<open>sum(xs) / len(xs)\<close> of floats, which is NaN as soon as one of them is.
\<close>

definition month_cells :: "(daily_row \<Rightarrow> pyfloat) \<Rightarrow> dataframe \<Rightarrow> int \<Rightarrow> nat \<Rightarrow> pyfloat list" where
  "month_cells col df y m =
     map col (filter (\<lambda>r. dt_year (time r) = y \<and> dt_month (time r) = m) df)"

definition years_with_records :: "dataframe \<Rightarrow> nat \<Rightarrow> int list" where
  "years_with_records df m =
     sort (remdups (map (\<lambda>r. dt_year (time r)) (filter (\<lambda>r. dt_month (time r) = m) df)))"

definition valid_count :: "(daily_row \<Rightarrow> pyfloat) \<Rightarrow> dataframe \<Rightarrow> int \<Rightarrow> nat \<Rightarrow> nat" where
  "valid_count col df y m = length (valid_values (month_cells col df y m))"

definition year_month_mean :: "(daily_row \<Rightarrow> pyfloat) \<Rightarrow> dataframe \<Rightarrow> int \<Rightarrow> nat \<Rightarrow> real" where
  "year_month_mean col df y m =
     sum_list (valid_values (month_cells col df y m)) / real (valid_count col df y m)"

definition contributing_years :: "(daily_row \<Rightarrow> pyfloat) \<Rightarrow> dataframe \<Rightarrow> int \<Rightarrow> nat \<Rightarrow> int list" where
  "contributing_years col df min_days m =
     filter (\<lambda>y. min_days \<le> int (valid_count col df y m) \<and> 1 \<le> valid_count col df y m)
       (years_with_records df m)"

definition mean_of_means :: "(daily_row \<Rightarrow> pyfloat) \<Rightarrow> dataframe \<Rightarrow> nat \<Rightarrow> int list \<Rightarrow> real" where
  "mean_of_means col df m ys = sum_list (map (\<lambda>y. year_month_mean col df y m) ys) / real (length ys)"

definition qualifying_years :: "(daily_row \<Rightarrow> pyfloat) \<Rightarrow> dataframe \<Rightarrow> int \<Rightarrow> nat \<Rightarrow> int list" where
  "qualifying_years col df min_days m =
     filter (\<lambda>y. min_days \<le> int (valid_count col df y m)) (years_with_records df m)"

definition arithmetic_mean :: "pyfloat list \<Rightarrow> pyfloat" where
  "arithmetic_mean xs =
     (if NaN \<in> set xs then NaN else Num (sum_list (valid_values xs) / real (length xs)))"

text \<open>
  The value the month's entry would have if every qualifying year entered the mean with
  weight 1: the plain mean of the per-year means \<open>pd_mean\<close> over \<open>qualifying_years\<close>.
\<close>

definition mean_over_qualifying :: "(daily_row \<Rightarrow> pyfloat) \<Rightarrow> dataframe \<Rightarrow> int \<Rightarrow> nat \<Rightarrow> pyfloat" where
  "mean_over_qualifying col df min_days m =
     arithmetic_mean (map (\<lambda>y. pd_mean (month_cells col df y m)) (qualifying_years col df min_days m))"

section \<open>Sample inputs\<close>

definition empty_cache :: SimpleGeolocatorCache where
  "empty_cache = \<lparr>file_path = ''cache.sqlite3'', connection = [],
                   select_raises = False, insert_raises = False\<rparr>"

definition fredericton_cache :: SimpleGeolocatorCache where
  "fredericton_cache = \<lparr>file_path = ''simple_geolocator_cache.sqlite3'',
                         connection = [(''Fredericton, NB'', 45.966, -66.646)],
                         select_raises = False, insert_raises = False\<rparr>"

definition fredericton_world :: world where
  "fredericton_world = \<lparr>geopy_cache_global = None, cache_file = Inr fredericton_cache, trace = []\<rparr>"

definition houston_only :: "string \<Rightarrow> location" where
  "houston_only address =
     (if address = ''Houston, TX'' then Location 29.7589382 (-95.3676974) else NoLocation)"

definition unreadable_world :: world where
  "unreadable_world =
     \<lparr>geopy_cache_global = Some (fredericton_cache\<lparr>select_raises := True\<rparr>),
      cache_file = Inr fredericton_cache, trace = []\<rparr>"

definition readonly_world :: world where
  "readonly_world =
     \<lparr>geopy_cache_global = Some (fredericton_cache\<lparr>insert_raises := True\<rparr>),
      cache_file = Inr fredericton_cache, trace = []\<rparr>"

definition warm_world :: world where
  "warm_world =
     \<lparr>geopy_cache_global = Some fredericton_cache, cache_file = Inr fredericton_cache,
      trace = []\<rparr>"

definition no_cache_world :: world where
  "no_cache_world =
     \<lparr>geopy_cache_global = None, cache_file = Inl (LibraryError ''sqlite3.OperationalError''),
      trace = []\<rparr>"

definition day_row :: "int \<Rightarrow> nat \<Rightarrow> nat \<Rightarrow> pyfloat \<Rightarrow> daily_row" where
  "day_row y m d t = \<lparr>time = \<lparr>dt_year = y, dt_month = m, dt_day = d\<rparr>, temp = t, wspd = NaN\<rparr>"

definition meteostat_with :: "dataframe \<Rightarrow> meteostat" where
  "meteostat_with df = \<lparr>METEOSTAT_AVAILABLE = True, daily = (\<lambda>station start stop si. Inr (Some df))\<rparr>"

text \<open>January 2021 with 31 valid days, January 2022 with 5 valid days out of 31.\<close>

definition two_januaries :: dataframe where
  "two_januaries =
     map (\<lambda>d. day_row 2021 1 d (Num (270 + real d))) [1..<32]
     @ map (\<lambda>d. day_row 2022 1 d (if d \<le> 5 then Num 300 else NaN)) [1..<32]"

text \<open>One valid day in January 2020, one day without a temperature in January 2021.\<close>

definition gap_window :: dataframe where
  "gap_window = [day_row 2020 1 15 (Num 10), day_row 2021 1 15 NaN]"

text \<open>Ten valid days in January 2023 and nothing else.\<close>

definition ten_days :: dataframe where
  "ten_days = map (\<lambda>d. day_row 2023 1 d (Num 280)) [1..<11]"

text \<open>Ten valid days in January 2023 and all 28 days of February 2023.\<close>

definition short_january :: dataframe where
  "short_january = ten_days @ map (\<lambda>d. day_row 2023 2 d (Num 285)) [1..<29]"

text \<open>Four months of 2021 with one day each; January ties with March, February with April.\<close>

definition tied_window :: dataframe where
  "tied_window =
     [day_row 2021 1 1 (Num 280), day_row 2021 2 1 (Num 290),
      day_row 2021 3 1 (Num 280), day_row 2021 4 1 (Num 290)]"

text \<open>
  Ten valid days in January 2023, then every day of February and March at 280 and of
  April and May at 290: below a threshold of 23 days January is masked, February ties
  with March for the lowest average and April with May for the highest.
\<close>

definition ties_behind_short_january :: dataframe where
  "ties_behind_short_january =
     ten_days
     @ map (\<lambda>d. day_row 2023 2 d (Num 280)) [1..<29]
     @ map (\<lambda>d. day_row 2023 3 d (Num 280)) [1..<32]
     @ map (\<lambda>d. day_row 2023 4 d (Num 290)) [1..<31]
     @ map (\<lambda>d. day_row 2023 5 d (Num 290)) [1..<32]"

section \<open>Degree-day properties\<close>

text \<open>
  Claim C9. For all temperatures T and T_base, the untruncated heating degree days are
  the negation of the untruncated cooling degree days, and the truncated heating degree
  days are max(0, T_base - T). Both functions are total: they have no error branch and
  no state, and return a number for every pair of temperatures and either flag.
\<close>

theorem degree_days_symmetry_and_truncation:
  "heating_degree_days T T_base False = - cooling_degree_days T T_base False
   \<and> heating_degree_days T T_base True = max 0 (T_base - T)"
  by (simp add: heating_degree_days_def cooling_degree_days_def py_max2_def max_def)

section \<open>Cache properties\<close>

lemma sql_select_insert:
  "sql_select (sql_insert_or_replace t a x y) a = Some (x, y)"
  by (simp add: sql_select_def sql_insert_or_replace_def)

lemma sql_select_absent:
  "a \<notin> fst ` set t \<Longrightarrow> sql_select t a = None"
proof -
  assume "a \<notin> fst ` set t"
  then have "filter (\<lambda>r. fst r = a) t = []"
    by (auto simp: filter_empty_conv)
  then show ?thesis by (simp add: sql_select_def)
qed

lemma sql_select_present:
  "primary_key t \<Longrightarrow> (a, x, y) \<in> set t \<Longrightarrow> sql_select t a = Some (x, y)"
proof (induction t)
  case Nil
  then show ?case by simp
next
  case (Cons r t)
  show ?case
  proof (cases "fst r = a")
    case True
    with Cons.prems have "r = (a, x, y)"
      by (auto simp: primary_key_def rev_image_eqI)
    then show ?thesis by (simp add: sql_select_def)
  next
    case False
    with Cons.prems have "primary_key t" "(a, x, y) \<in> set t"
      by (auto simp: primary_key_def)
    then have "sql_select t a = Some (x, y)" by (rule Cons.IH)
    with False show ?thesis by (simp add: sql_select_def)
  qed
qed

lemma primary_key_insert:
  "primary_key t \<Longrightarrow> primary_key (sql_insert_or_replace t a x y)"
  by (auto simp: primary_key_def sql_insert_or_replace_def distinct_map_filter)

lemma addresses_insert:
  "fst ` set (sql_insert_or_replace t a x y) = insert a (fst ` set t)"
  by (auto simp: sql_insert_or_replace_def rev_image_eqI)

lemma sql_count_addresses:
  "primary_key t \<Longrightarrow> sql_count t = card (fst ` set t)"
proof -
  assume "primary_key t"
  then have "card (set (map fst t)) = length (map fst t)"
    unfolding primary_key_def by (rule distinct_card)
  then show ?thesis by (simp add: sql_count_def)
qed

lemma cache_addresses_ok:
  "\<not> insert_raises c \<Longrightarrow> primary_key (connection c) \<Longrightarrow>
   \<exists>c'. cache_addresses c entries = Inr c'
      \<and> primary_key (connection c')
      \<and> fst ` set (connection c') = fst ` set (connection c) \<union> fst ` set entries
      \<and> select_raises c' = select_raises c \<and> insert_raises c' = insert_raises c"
proof (induction entries arbitrary: c)
  case Nil
  then show ?case by simp
next
  case (Cons e entries)
  obtain a x y where e: "e = (a, x, y)" by (cases e) auto
  define c1 where "c1 = c\<lparr>connection := sql_insert_or_replace (connection c) a x y\<rparr>"
  have step: "cache_address c a x y = Inr c1"
    using Cons.prems by (simp add: cache_address_def c1_def)
  have "\<not> insert_raises c1" "primary_key (connection c1)"
    using Cons.prems by (simp_all add: c1_def primary_key_insert)
  from Cons.IH [OF this] obtain c' where c':
    "cache_addresses c1 entries = Inr c'" "primary_key (connection c')"
    "fst ` set (connection c') = fst ` set (connection c1) \<union> fst ` set entries"
    "select_raises c' = select_raises c1" "insert_raises c' = insert_raises c1"
    by blast
  have "fst ` set (connection c1) = insert a (fst ` set (connection c))"
    by (simp add: c1_def addresses_insert del: set_map)
  with c' step e show ?case
    by (auto simp: c1_def)
qed

text \<open>
  Claim C7. On a cache whose statements do not raise, over a table that respects its
  primary key: storing (lat, lon) under an address and looking the address up gives
  exactly (lat, lon); looking up an address with no row, also in an empty table, gives
  None and no exception; after two stores to one address the lookup gives the second
  pair, and the table holds that address once; and after any run of stores the size is
  the number of distinct addresses in the table, not the number of calls.
\<close>

theorem cache_store_lookup_size:
  assumes "\<not> select_raises c" and "\<not> insert_raises c" and "primary_key (connection c)"
  shows "(\<exists>c1. cache_address c a lat lon = Inr c1 \<and> cached_address c1 a = Inr (Some (lat, lon)))
    \<and> (b \<notin> fst ` set (connection c) \<longrightarrow> cached_address c b = Inr None)
    \<and> cached_address (c\<lparr>connection := []\<rparr>) b = Inr None
    \<and> (\<exists>c1 c2. cache_address c a lat lon = Inr c1 \<and> cache_address c1 a lat' lon' = Inr c2
          \<and> cached_address c2 a = Inr (Some (lat', lon'))
          \<and> filter (\<lambda>r. fst r = a) (connection c2) = [(a, lat', lon')]
          \<and> len c2 = len c1)
    \<and> (\<exists>c'. cache_addresses c entries = Inr c'
          \<and> len c' = Inr (card (fst ` set (connection c) \<union> fst ` set entries)))"
proof -
  have one: "\<exists>c1. cache_address c a lat lon = Inr c1 \<and> cached_address c1 a = Inr (Some (lat, lon))"
    using assms by (simp add: cache_address_def cached_address_def sql_select_insert)
  have absent: "b \<notin> fst ` set (connection c) \<longrightarrow> cached_address c b = Inr None"
    using assms by (simp add: cached_address_def sql_select_absent del: set_map)
  have cold: "cached_address (c\<lparr>connection := []\<rparr>) b = Inr None"
    using assms by (simp add: cached_address_def sql_select_def)
  define c1 where "c1 = c\<lparr>connection := sql_insert_or_replace (connection c) a lat lon\<rparr>"
  define c2 where "c2 = c1\<lparr>connection := sql_insert_or_replace (connection c1) a lat' lon'\<rparr>"
  have s1: "cache_address c a lat lon = Inr c1"
    using assms by (simp add: cache_address_def c1_def)
  have s2: "cache_address c1 a lat' lon' = Inr c2"
    using assms by (simp add: cache_address_def c1_def c2_def)
  have l2: "cached_address c2 a = Inr (Some (lat', lon'))"
    using assms by (simp add: cached_address_def c1_def c2_def sql_select_insert)
  have row: "filter (\<lambda>r. fst r = a) (connection c2) = [(a, lat', lon')]"
    by (simp add: c2_def sql_insert_or_replace_def)
  have pk1: "primary_key (connection c1)"
    using assms by (simp add: c1_def primary_key_insert)
  then have pk2: "primary_key (connection c2)"
    by (simp add: c2_def primary_key_insert)
  have "fst ` set (connection c2) = fst ` set (connection c1)"
    by (auto simp: c2_def c1_def addresses_insert simp del: set_map)
  then have "sql_count (connection c2) = sql_count (connection c1)"
    using pk1 pk2 by (simp add: sql_count_addresses del: set_map)
  then have sz: "len c2 = len c1"
    using assms by (simp add: len_def c1_def c2_def)
  have two: "\<exists>c1 c2. cache_address c a lat lon = Inr c1 \<and> cache_address c1 a lat' lon' = Inr c2
          \<and> cached_address c2 a = Inr (Some (lat', lon'))
          \<and> filter (\<lambda>r. fst r = a) (connection c2) = [(a, lat', lon')]
          \<and> len c2 = len c1"
    using s1 s2 l2 row sz by blast
  from cache_addresses_ok [OF assms(2,3), of entries] obtain c' where c':
    "cache_addresses c entries = Inr c'" "primary_key (connection c')"
    "fst ` set (connection c') = fst ` set (connection c) \<union> fst ` set entries"
    "select_raises c' = select_raises c"
    by blast
  have "len c' = Inr (card (fst ` set (connection c) \<union> fst ` set entries))"
    using c' assms(1) by (simp add: len_def sql_count_addresses del: set_map)
  with c'(1) have many: "\<exists>c'. cache_addresses c entries = Inr c'
          \<and> len c' = Inr (card (fst ` set (connection c) \<union> fst ` set entries))"
    by blast
  from one absent cold two many show ?thesis by blast
qed

theorem cache_store_lookup_size_witness:
  "\<not> select_raises empty_cache \<and> \<not> insert_raises empty_cache
   \<and> primary_key (connection empty_cache)
   \<and> (\<exists>c1. cache_address empty_cache ''Houston, TX'' 29.76 (-95.37) = Inr c1
          \<and> cached_address c1 ''Houston, TX'' = Inr (Some (29.76, -95.37)))
   \<and> cached_address empty_cache ''Unknown City'' = Inr None
   \<and> (\<exists>c'. cache_addresses empty_cache
                [(''Houston, TX'', 29.76, -95.37), (''Houston, TX'', 29.7, -95.4)] = Inr c'
          \<and> len c' = Inr 1)"
proof -
  have h1: "\<not> select_raises empty_cache" and h2: "\<not> insert_raises empty_cache"
    and h3: "primary_key (connection empty_cache)"
    by (simp_all add: empty_cache_def primary_key_def)
  have absent: "''Unknown City'' \<notin> fst ` set (connection empty_cache)"
    by (simp add: empty_cache_def)
  have n: "card (fst ` set (connection empty_cache)
             \<union> fst ` set [(''Houston, TX'', 29.76::real, -95.37::real), (''Houston, TX'', 29.7, -95.4)]) = 1"
    by (simp add: empty_cache_def)
  from cache_store_lookup_size [OF h1 h2 h3, of "''Houston, TX''" "29.76" "-95.37" "''Unknown City''"
      "29.7" "-95.4" "[(''Houston, TX'', 29.76, -95.37), (''Houston, TX'', 29.7, -95.4)]"]
  show ?thesis using h1 h2 h3 absent n by simp
qed

section \<open>Geocode orchestration properties\<close>

lemma geopy_available_cases:
  "GEOPY_AVAILABLE geopy \<longleftrightarrow> (\<exists>nominatim. geopy = Installed nominatim)"
  by (cases geopy) (simp_all add: GEOPY_AVAILABLE_def)

lemma try_cache_trace:
  "try_cache w address = (r, w1) \<Longrightarrow>
   trace w1 = trace w \<or> trace w1 = trace w @ [CacheRead address]"
  by (auto simp: try_cache_def geopy_cache_def Let_def
           split: option.splits sum.splits)

lemma try_cache_no_cache:
  "try_cache w address = (Miss None, w1) \<Longrightarrow>
   (\<exists>e. fst (geopy_cache w) = Inl e)
   \<or> (\<exists>c e. fst (geopy_cache w) = Inr c \<and> cached_address c address = Inl e)"
  by (auto simp: try_cache_def Let_def split: prod.splits option.splits sum.splits)

text \<open>
  Claim C3 (as amended). When geopy is importable and the cache object the module
  opens can be read, an address that has a row in the table is answered from that row:
  geocode returns the stored (latitude, longitude), and the only call the run makes is
  the cache read; the geocoder is not called and nothing is written.
\<close>

theorem geocode_cache_hit:
  assumes "GEOPY_AVAILABLE geopy"
    and "geopy_cache w = (Inr c, w1)"
    and "\<not> select_raises c" and "primary_key (connection c)"
    and "(address, lat, lon) \<in> set (connection c)"
  shows "geocode geopy w address = (Inr (lat, lon), w1\<lparr>trace := trace w @ [CacheRead address]\<rparr>)"
proof -
  have "sql_select (connection c) address = Some (lat, lon)"
    using assms(4,5) by (rule sql_select_present)
  then have read: "cached_address c address = Inr (Some (lat, lon))"
    using assms(3) by (simp add: cached_address_def)
  have "trace w1 = trace w"
    using assms(2) by (auto simp: geopy_cache_def split: option.splits sum.splits)
  then have "try_cache w address = (Hit (lat, lon), w1\<lparr>trace := trace w @ [CacheRead address]\<rparr>)"
    using assms(2) read by (simp add: try_cache_def Let_def)
  then show ?thesis
    using assms(1) by (simp add: geocode_def)
qed

theorem geocode_cache_hit_witness:
  "GEOPY_AVAILABLE (Installed houston_only)
   \<and> geopy_cache fredericton_world
       = (Inr fredericton_cache, fredericton_world\<lparr>geopy_cache_global := Some fredericton_cache\<rparr>)
   \<and> \<not> select_raises fredericton_cache \<and> primary_key (connection fredericton_cache)
   \<and> (''Fredericton, NB'', 45.966, -66.646) \<in> set (connection fredericton_cache)
   \<and> geocode (Installed houston_only) fredericton_world ''Fredericton, NB''
       = (Inr (45.966, -66.646),
          fredericton_world\<lparr>geopy_cache_global := Some fredericton_cache,
                             trace := [CacheRead ''Fredericton, NB'']\<rparr>)"
proof -
  have h1: "GEOPY_AVAILABLE (Installed houston_only)"
    by (simp add: GEOPY_AVAILABLE_def)
  have h2: "geopy_cache fredericton_world
       = (Inr fredericton_cache, fredericton_world\<lparr>geopy_cache_global := Some fredericton_cache\<rparr>)"
    by (simp add: geopy_cache_def fredericton_world_def)
  have h3: "\<not> select_raises fredericton_cache" and h4: "primary_key (connection fredericton_cache)"
    and h5: "(''Fredericton, NB'', 45.966, -66.646) \<in> set (connection fredericton_cache)"
    by (simp_all add: fredericton_cache_def primary_key_def)
  from geocode_cache_hit [OF h1 h2 h3 h4 h5]
  show ?thesis using h1 h2 h3 h4 h5 by (simp add: fredericton_world_def)
qed

text \<open>
  The claim as first stated has no condition on geopy: with the same row in the cache
  and geopy not importable, geocode raises ImportError and the cached pair is not
  returned.
\<close>

theorem geocode_cache_hit_counterexample:
  "fst (geopy_cache fredericton_world) = Inr fredericton_cache
   \<and> cached_address fredericton_cache ''Fredericton, NB'' = Inr (Some (45.966, -66.646))
   \<and> fst (geocode NotInstalled fredericton_world ''Fredericton, NB'') \<noteq> Inr (45.966, -66.646)"
  by (simp add: geopy_cache_def fredericton_world_def fredericton_cache_def cached_address_def
      sql_select_def geocode_def GEOPY_AVAILABLE_def)

lemma geocode_on_miss:
  assumes "try_cache w address = (Miss cache, w1)"
  shows "geocode (Installed nominatim) w address =
     (case nominatim address of
        GeocoderRaises e \<Rightarrow>
          (Inl (LibraryError e), w1\<lparr>trace := trace w1 @ [ProviderCall address]\<rparr>)
      | NoLocation \<Rightarrow>
          (Inl (ValueError (''Could not geocode: '' @ address)),
           w1\<lparr>trace := trace w1 @ [ProviderCall address]\<rparr>)
      | Location latitude longitude \<Rightarrow>
          (Inr (latitude, longitude),
           cache_result (w1\<lparr>trace := trace w1 @ [ProviderCall address]\<rparr>) cache address
             latitude longitude))"
  using assms
  by (simp add: geocode_def GEOPY_AVAILABLE_def geopy_geolocator_def Let_def)

text \<open>
  Claim C5. Let geopy be importable and let the geocoder locate the address. Whatever
  the first try block leaves (a usable cache or none), the run returns the geocoder's
  pair. If the cache could not be opened or its read raised, the run still returns that
  pair, and it makes no cache write: the singleton is what opening left, and the only
  calls are the read (when the cache opened) and the geocoder call. If the read missed
  and the write raises, the exception is dropped: the run returns the pair and the
  table is unchanged.
\<close>

theorem geocode_cache_failure_harmless:
  assumes "geopy = Installed nominatim" and "nominatim address = Location lat lon"
  shows "(\<forall>cache. fst (try_cache w address) = Miss cache \<longrightarrow>
            fst (geocode geopy w address) = Inr (lat, lon))
    \<and> ((\<exists>e. fst (geopy_cache w) = Inl e) \<longrightarrow>
          geocode geopy w address
            = (Inr (lat, lon), w\<lparr>trace := trace w @ [ProviderCall address]\<rparr>))
    \<and> (\<forall>c e. fst (geopy_cache w) = Inr c \<and> cached_address c address = Inl e \<longrightarrow>
          geocode geopy w address
            = (Inr (lat, lon),
               (snd (geopy_cache w))\<lparr>trace := trace w @ [CacheRead address, ProviderCall address]\<rparr>))
    \<and> (\<forall>c e. fst (geopy_cache w) = Inr c \<and> cached_address c address = Inr None
              \<and> cache_address c address lat lon = Inl e \<longrightarrow>
          geocode geopy w address
            = (Inr (lat, lon),
               (snd (geopy_cache w))\<lparr>trace :=
                  trace w @ [CacheRead address, ProviderCall address, CacheWrite address]\<rparr>))"
proof -
  have any: "\<forall>cache. fst (try_cache w address) = Miss cache \<longrightarrow>
            fst (geocode geopy w address) = Inr (lat, lon)"
  proof (intro allI impI)
    fix cache assume "fst (try_cache w address) = Miss cache"
    then have "try_cache w address = (Miss cache, snd (try_cache w address))"
      by (metis prod.collapse)
    from geocode_on_miss [OF this, of nominatim] show "fst (geocode geopy w address) = Inr (lat, lon)"
      using assms by simp
  qed
  have tr: "trace (snd (geopy_cache w)) = trace w"
    by (auto simp: geopy_cache_def split: option.splits sum.splits)
  have closed: "(\<exists>e. fst (geopy_cache w) = Inl e) \<longrightarrow>
          geocode geopy w address
            = (Inr (lat, lon), w\<lparr>trace := trace w @ [ProviderCall address]\<rparr>)"
  proof
    assume "\<exists>e. fst (geopy_cache w) = Inl e"
    then obtain e where e: "fst (geopy_cache w) = Inl e" ..
    then have "geopy_cache w = (Inl e, w)"
      by (auto simp: geopy_cache_def split: option.splits sum.splits)
    then have "try_cache w address = (Miss None, w)"
      by (simp add: try_cache_def)
    from geocode_on_miss [OF this, of nominatim]
    show "geocode geopy w address
            = (Inr (lat, lon), w\<lparr>trace := trace w @ [ProviderCall address]\<rparr>)"
      using assms by (simp add: cache_result_def)
  qed
  have unread: "\<forall>c e. fst (geopy_cache w) = Inr c \<and> cached_address c address = Inl e \<longrightarrow>
          geocode geopy w address
            = (Inr (lat, lon),
               (snd (geopy_cache w))\<lparr>trace := trace w @ [CacheRead address, ProviderCall address]\<rparr>)"
  proof (intro allI impI)
    fix c e assume a: "fst (geopy_cache w) = Inr c \<and> cached_address c address = Inl e"
    obtain w1 where w1: "geopy_cache w = (Inr c, w1)"
      using a by (metis prod.collapse)
    with tr have "trace w1 = trace w" by simp
    with w1 a have "try_cache w address
        = (Miss None, (snd (geopy_cache w))\<lparr>trace := trace w @ [CacheRead address]\<rparr>)"
      by (simp add: try_cache_def Let_def)
    from geocode_on_miss [OF this, of nominatim]
    show "geocode geopy w address
            = (Inr (lat, lon),
               (snd (geopy_cache w))\<lparr>trace := trace w @ [CacheRead address, ProviderCall address]\<rparr>)"
      using assms by (simp add: cache_result_def)
  qed
  have unwritten: "\<forall>c e. fst (geopy_cache w) = Inr c \<and> cached_address c address = Inr None
              \<and> cache_address c address lat lon = Inl e \<longrightarrow>
          geocode geopy w address
            = (Inr (lat, lon),
               (snd (geopy_cache w))\<lparr>trace :=
                  trace w @ [CacheRead address, ProviderCall address, CacheWrite address]\<rparr>)"
  proof (intro allI impI)
    fix c e assume a: "fst (geopy_cache w) = Inr c \<and> cached_address c address = Inr None
              \<and> cache_address c address lat lon = Inl e"
    obtain w1 where w1: "geopy_cache w = (Inr c, w1)"
      using a by (metis prod.collapse)
    with tr have "trace w1 = trace w" by simp
    with w1 a have "try_cache w address
        = (Miss (Some c), (snd (geopy_cache w))\<lparr>trace := trace w @ [CacheRead address]\<rparr>)"
      by (simp add: try_cache_def Let_def)
    from geocode_on_miss [OF this, of nominatim]
    show "geocode geopy w address
            = (Inr (lat, lon),
               (snd (geopy_cache w))\<lparr>trace :=
                  trace w @ [CacheRead address, ProviderCall address, CacheWrite address]\<rparr>)"
      using assms a by (simp add: cache_result_def Let_def)
  qed
  from any closed unread unwritten show ?thesis by blast
qed

theorem geocode_cache_failure_harmless_witness:
  "houston_only ''Houston, TX'' = Location 29.7589382 (-95.3676974)
   \<and> fst (geopy_cache no_cache_world) = Inl (LibraryError ''sqlite3.OperationalError'')
   \<and> geocode (Installed houston_only) no_cache_world ''Houston, TX''
       = (Inr (29.7589382, -95.3676974), no_cache_world\<lparr>trace := [ProviderCall ''Houston, TX'']\<rparr>)
   \<and> fst (geopy_cache unreadable_world) = Inr (fredericton_cache\<lparr>select_raises := True\<rparr>)
   \<and> cached_address (fredericton_cache\<lparr>select_raises := True\<rparr>) ''Houston, TX''
       = Inl (LibraryError ''sqlite3.Error'')
   \<and> geocode (Installed houston_only) unreadable_world ''Houston, TX''
       = (Inr (29.7589382, -95.3676974),
          unreadable_world\<lparr>trace := [CacheRead ''Houston, TX'', ProviderCall ''Houston, TX'']\<rparr>)
   \<and> fst (geopy_cache readonly_world) = Inr (fredericton_cache\<lparr>insert_raises := True\<rparr>)
   \<and> cached_address (fredericton_cache\<lparr>insert_raises := True\<rparr>) ''Houston, TX'' = Inr None
   \<and> cache_address (fredericton_cache\<lparr>insert_raises := True\<rparr>) ''Houston, TX''
        29.7589382 (-95.3676974) = Inl (LibraryError ''sqlite3.Error'')
   \<and> geocode (Installed houston_only) readonly_world ''Houston, TX''
       = (Inr (29.7589382, -95.3676974),
          readonly_world\<lparr>trace := [CacheRead ''Houston, TX'', ProviderCall ''Houston, TX'',
                                    CacheWrite ''Houston, TX'']\<rparr>)"
proof -
  have p: "houston_only ''Houston, TX'' = Location 29.7589382 (-95.3676974)"
    by (simp add: houston_only_def)
  have o1: "fst (geopy_cache no_cache_world) = Inl (LibraryError ''sqlite3.OperationalError'')"
    and o2: "fst (geopy_cache unreadable_world) = Inr (fredericton_cache\<lparr>select_raises := True\<rparr>)"
    and o3: "fst (geopy_cache readonly_world) = Inr (fredericton_cache\<lparr>insert_raises := True\<rparr>)"
    and s2: "snd (geopy_cache unreadable_world) = unreadable_world"
    and s3: "snd (geopy_cache readonly_world) = readonly_world"
    by (simp_all add: geopy_cache_def no_cache_world_def unreadable_world_def readonly_world_def)
  have r2: "cached_address (fredericton_cache\<lparr>select_raises := True\<rparr>) ''Houston, TX''
       = Inl (LibraryError ''sqlite3.Error'')"
    and r3: "cached_address (fredericton_cache\<lparr>insert_raises := True\<rparr>) ''Houston, TX'' = Inr None"
    and w3: "cache_address (fredericton_cache\<lparr>insert_raises := True\<rparr>) ''Houston, TX''
        29.7589382 (-95.3676974) = Inl (LibraryError ''sqlite3.Error'')"
    by (simp_all add: cached_address_def cache_address_def fredericton_cache_def sql_select_def)
  have t1: "trace no_cache_world = []" and t2: "trace unreadable_world = []"
    and t3: "trace readonly_world = []"
    by (simp_all add: no_cache_world_def unreadable_world_def readonly_world_def)
  note inst = geocode_cache_failure_harmless [where geopy = "Installed houston_only"
      and nominatim = houston_only and address = "''Houston, TX''", OF refl p]
  from inst [where w = no_cache_world] o1 t1
  have g1: "geocode (Installed houston_only) no_cache_world ''Houston, TX''
       = (Inr (29.7589382, -95.3676974), no_cache_world\<lparr>trace := [ProviderCall ''Houston, TX'']\<rparr>)"
    by simp
  from inst [where w = unreadable_world] o2 r2 s2 t2
  have g2: "geocode (Installed houston_only) unreadable_world ''Houston, TX''
       = (Inr (29.7589382, -95.3676974),
          unreadable_world\<lparr>trace := [CacheRead ''Houston, TX'', ProviderCall ''Houston, TX'']\<rparr>)"
    by simp
  from inst [where w = readonly_world] o3 r3 w3 s3 t3
  have g3: "geocode (Installed houston_only) readonly_world ''Houston, TX''
       = (Inr (29.7589382, -95.3676974),
          readonly_world\<lparr>trace := [CacheRead ''Houston, TX'', ProviderCall ''Houston, TX'',
                                    CacheWrite ''Houston, TX'']\<rparr>)"
    by simp
  from p o1 g1 o2 r2 g2 o3 r3 w3 g3 show ?thesis by simp
qed

text \<open>
  Claim C6. When the first try block ends without a hit, geocode raises
  ValueError "Could not geocode: " followed by the address exactly when geopy is
  installed and its geocoder returns None for the address, and raises ImportError
  exactly when geopy is not installed. The two are different exceptions and their
  conditions exclude each other.
\<close>

theorem geocode_miss_error_kinds:
  assumes "fst (try_cache w address) = Miss cache"
  shows "(fst (geocode geopy w address) = Inl (ValueError (''Could not geocode: '' @ address))
            \<longleftrightarrow> (\<exists>nominatim. geopy = Installed nominatim \<and> nominatim address = NoLocation))
    \<and> ((\<exists>msg. fst (geocode geopy w address) = Inl (ImportError msg))
            \<longleftrightarrow> geopy = NotInstalled)
    \<and> (geopy = NotInstalled \<longrightarrow>
          fst (geocode geopy w address) = Inl (ImportError GEOPY_MISSING_MSG))"
proof (cases geopy)
  case NotInstalled
  then show ?thesis by (simp add: geocode_def GEOPY_AVAILABLE_def)
next
  case (Installed nominatim)
  from assms have "try_cache w address = (Miss cache, snd (try_cache w address))"
    by (metis prod.collapse)
  from geocode_on_miss [OF this, of nominatim] Installed show ?thesis
    by (cases "nominatim address") simp_all
qed

theorem geocode_miss_error_kinds_witness:
  "fst (try_cache fredericton_world ''Atlantis'') = Miss (Some fredericton_cache)
   \<and> houston_only ''Atlantis'' = NoLocation
   \<and> fst (geocode (Installed houston_only) fredericton_world ''Atlantis'')
       = Inl (ValueError ''Could not geocode: Atlantis'')
   \<and> fst (geocode NotInstalled fredericton_world ''Atlantis'') = Inl (ImportError GEOPY_MISSING_MSG)"
proof -
  have h: "fst (try_cache fredericton_world ''Atlantis'') = Miss (Some fredericton_cache)"
    by (simp add: try_cache_def geopy_cache_def fredericton_world_def fredericton_cache_def
        cached_address_def sql_select_def Let_def)
  have p: "houston_only ''Atlantis'' = NoLocation"
    by (simp add: houston_only_def)
  from geocode_miss_error_kinds [OF h, of "Installed houston_only"] p
  have v: "fst (geocode (Installed houston_only) fredericton_world ''Atlantis'')
       = Inl (ValueError ''Could not geocode: Atlantis'')"
    by simp
  from geocode_miss_error_kinds [OF h, of NotInstalled]
  have i: "fst (geocode NotInstalled fredericton_world ''Atlantis'') = Inl (ImportError GEOPY_MISSING_MSG)"
    by simp
  from h p v i show ?thesis by simp
qed

text \<open>
  Claim C10. When geopy is not importable, geocode raises the ImportError with the
  missing-geopy message for every address and every state of the cache, and the run
  makes no call at all: the module state and the call log are returned unchanged, so the
  cache is neither opened nor read, and no cached pair is returned.
\<close>

theorem geocode_without_geopy:
  "\<not> GEOPY_AVAILABLE geopy \<Longrightarrow>
   geocode geopy w address = (Inl (ImportError GEOPY_MISSING_MSG), w)"
  by (simp add: geocode_def)

theorem geocode_without_geopy_witness:
  "\<not> GEOPY_AVAILABLE NotInstalled
   \<and> cached_address fredericton_cache ''Fredericton, NB'' = Inr (Some (45.966, -66.646))
   \<and> geopy_cache_global warm_world = Some fredericton_cache
   \<and> geocode NotInstalled warm_world ''Fredericton, NB''
       = (Inl (ImportError GEOPY_MISSING_MSG), warm_world)"
proof -
  have h: "\<not> GEOPY_AVAILABLE NotInstalled"
    by (simp add: GEOPY_AVAILABLE_def)
  have c: "cached_address fredericton_cache ''Fredericton, NB'' = Inr (Some (45.966, -66.646))"
    by (simp add: cached_address_def fredericton_cache_def sql_select_def)
  have g: "geopy_cache_global warm_world = Some fredericton_cache"
    by (simp add: warm_world_def)
  from geocode_without_geopy [OF h, of warm_world "''Fredericton, NB''"] h c g
  show ?thesis by simp
qed

section \<open>Aggregation lemmas\<close>

lemma map_of_tabulate:
  "map_of (map (\<lambda>k. (k, f k)) ks) k = (if k \<in> set ks then Some (f k) else None)"
  by (induction ks) auto

lemma valid_values_masked:
  "valid_values (map (\<lambda>y. if int (pd_count (c y)) < md then NaN else pd_mean (c y)) ys)
   = map (\<lambda>y. sum_list (valid_values (c y)) / real (length (valid_values (c y))))
       (filter (\<lambda>y. md \<le> int (length (valid_values (c y))) \<and> 1 \<le> length (valid_values (c y))) ys)"
  by (induction ys) (auto simp: pd_mean_def pd_count_def Let_def Suc_le_eq)

lemma sorted_pair_with: "sorted (map (\<lambda>y::int. (y, m::nat)) ys) = sorted ys"
  by (induction ys) (auto simp: less_eq_prod_def)

lemma month_keys:
  "filter (\<lambda>k. snd k = m) (sort (remdups (map year_month df)))
   = map (\<lambda>y. (y, m)) (years_with_records df m)"
proof (rule sorted_distinct_set_unique)
  show "sorted (filter (\<lambda>k. snd k = m) (sort (remdups (map year_month df))))"
    by (simp add: sorted_wrt_filter)
  show "distinct (filter (\<lambda>k. snd k = m) (sort (remdups (map year_month df))))"
    by simp
  show "sorted (map (\<lambda>y. (y, m)) (years_with_records df m))"
    by (simp add: sorted_pair_with years_with_records_def)
  show "distinct (map (\<lambda>y. (y, m)) (years_with_records df m))"
    by (simp add: distinct_map years_with_records_def inj_on_def)
  show "set (filter (\<lambda>k. snd k = m) (sort (remdups (map year_month df))))
        = set (map (\<lambda>y. (y, m)) (years_with_records df m))"
    by (auto simp: years_with_records_def year_month_def)
qed

lemma month_cells_key:
  "map col (filter (\<lambda>r. year_month r = (y, m)) df) = month_cells col df y m"
  by (simp add: month_cells_def year_month_def)

lemma masked_month_means:
  "map col_mean (filter (\<lambda>g. month g = m) (mask_min_days md (groupby_year_month col df)))
   = map (\<lambda>y. if int (pd_count (month_cells col df y m)) < md then NaN
               else pd_mean (month_cells col df y m))
       (years_with_records df m)"
proof -
  let ?mk = "\<lambda>k. let cells = map col (filter (\<lambda>r. year_month r = k) df) in
              \<lparr>year = fst k, month = snd k, col_mean = pd_mean cells, col_count = pd_count cells\<rparr>"
  let ?mask = "\<lambda>g. if int (col_count g) < md then g\<lparr>col_mean := NaN\<rparr> else g"
  let ?K = "sort (remdups (map year_month df))"
  have "filter (\<lambda>g. month g = m) (map (\<lambda>k. ?mask (?mk k)) ?K)
        = map (\<lambda>k. ?mask (?mk k)) (filter (\<lambda>k. snd k = m) ?K)"
    by (simp add: filter_map o_def Let_def)
  also have "\<dots> = map (\<lambda>k. ?mask (?mk k)) (map (\<lambda>y. (y, m)) (years_with_records df m))"
    by (simp only: month_keys)
  finally have "filter (\<lambda>g. month g = m) (mask_min_days md (groupby_year_month col df))
        = map (\<lambda>y. ?mask (?mk (y, m))) (years_with_records df m)"
    by (simp add: mask_min_days_def groupby_year_month_def o_def)
  then show ?thesis
    by (simp add: o_def Let_def month_cells_key)
qed

lemma grouped_months:
  "set (sort (remdups (map month (mask_min_days md (groupby_year_month col df)))))
   = (\<lambda>r. dt_month (time r)) ` set df"
  by (auto simp: mask_min_days_def groupby_year_month_def year_month_def Let_def image_iff)

lemma years_with_records_empty:
  "years_with_records df m = [] \<longleftrightarrow> m \<notin> (\<lambda>r. dt_month (time r)) ` set df"
proof -
  have "years_with_records df m = [] \<longleftrightarrow> set (years_with_records df m) = {}"
    by simp
  also have "\<dots> \<longleftrightarrow> m \<notin> (\<lambda>r. dt_month (time r)) ` set df"
    by (auto simp: years_with_records_def)
  finally show ?thesis .
qed

lemma monthly_profile_length: "length (monthly_profile col df md) = 12"
  by (simp add: monthly_profile_def Let_def split: option.splits)

lemma monthly_profile_entry:
  assumes "1 \<le> m" and "m \<le> 12" and "df \<noteq> []"
  shows "monthly_profile col (Some df) md ! (m - 1) =
     (if years_with_records df m = [] then None
      else if contributing_years col df md m = [] then Some NaN
      else Some (Num (mean_of_means col df m (contributing_years col df md m))))"
proof -
  let ?G = "mask_min_days md (groupby_year_month col df)"
  have idx: "[1..<13] ! (m - 1) = m" "m - 1 < length [1..<13]"
    using assms by simp_all
  have "monthly_profile col (Some df) md ! (m - 1) = series_get (groupby_month_mean ?G) m"
    using assms idx by (simp add: monthly_profile_def Let_def del: upt_Suc)
  also have "\<dots> = (if m \<in> (\<lambda>r. dt_month (time r)) ` set df
                    then Some (pd_mean (map col_mean (filter (\<lambda>g. month g = m) ?G))) else None)"
    unfolding series_get_def groupby_month_mean_def map_of_tabulate grouped_months ..
  finally have e: "monthly_profile col (Some df) md ! (m - 1) =
      (if years_with_records df m = [] then None
       else Some (pd_mean (map col_mean (filter (\<lambda>g. month g = m) ?G))))"
    by (simp add: years_with_records_empty)
  have v: "valid_values (map col_mean (filter (\<lambda>g. month g = m) ?G))
        = map (\<lambda>y. year_month_mean col df y m) (contributing_years col df md m)"
    unfolding masked_month_means valid_values_masked
    by (simp add: contributing_years_def year_month_mean_def valid_count_def)
  have "pd_mean (map col_mean (filter (\<lambda>g. month g = m) ?G))
        = (if contributing_years col df md m = [] then NaN
           else Num (mean_of_means col df m (contributing_years col df md m)))"
    unfolding pd_mean_def v by (simp add: mean_of_means_def Let_def)
  with e show ?thesis by simp
qed

section \<open>Lemmas on the extreme-month scan\<close>

lemma valid_from_empty: "valid_from i ts = [] \<longleftrightarrow> (\<forall>t\<in>set ts. t = None)"
  by (induction i ts rule: valid_from.induct) auto

lemma valid_from_mem:
  "(j, v) \<in> set (valid_from i ts) \<longleftrightarrow> i \<le> j \<and> j - i < length ts \<and> ts ! (j - i) = Some v"
proof (induction i ts rule: valid_from.induct)
  case (1 i)
  then show ?case by simp
next
  case (2 i ts)
  show ?case
  proof (cases "j = i")
    case True
    then show ?thesis using 2 by auto
  next
    case False
    then show ?thesis using 2 by (auto simp: nth_Cons' Suc_diff_le not_less_eq_eq)
  qed
next
  case (3 i t ts)
  show ?case
  proof (cases "j = i")
    case True
    then show ?thesis using 3 by auto
  next
    case False
    then show ?thesis using 3 by (auto simp: nth_Cons' Suc_diff_le not_less_eq_eq)
  qed
qed

lemma valid_from_first:
  "k < length ts \<Longrightarrow> ts ! k = Some v \<Longrightarrow> \<forall>j<k. ts ! j \<noteq> Some v \<Longrightarrow>
   hd (filter (\<lambda>p. snd p = v) (valid_from i ts)) = (i + k, v)"
proof (induction i ts arbitrary: k rule: valid_from.induct)
  case (1 i)
  then show ?case by simp
next
  case (2 i ts)
  then obtain k' where k: "k = Suc k'" by (cases k) auto
  with 2 have "k' < length ts" "ts ! k' = Some v" "\<forall>j<k'. ts ! j \<noteq> Some v"
    by auto
  from 2(1) [OF this] k show ?case by simp
next
  case (3 i t ts)
  show ?case
  proof (cases k)
    case 0
    with 3 show ?thesis by simp
  next
    case (Suc k')
    with 3 have "k' < length ts" "ts ! k' = Some v" "\<forall>j<k'. ts ! j \<noteq> Some v"
      by auto
    from 3(1) [OF this] have ih: "hd (filter (\<lambda>p. snd p = v) (valid_from (Suc i) ts)) = (Suc i + k', v)" .
    from 3(4) Suc have "t \<noteq> v" by auto
    with ih Suc show ?thesis by simp
  qed
qed

lemma min_by_value_mem: "min_by_value best xs \<in> set (best # xs)"
  by (induction xs arbitrary: best) auto

lemma max_by_value_mem: "max_by_value best xs \<in> set (best # xs)"
  by (induction xs arbitrary: best) auto

lemma py_le_not_lt: "py_le v w \<Longrightarrow> \<not> py_lt w v"
  by (cases v; cases w) auto

lemma py_le_neq_lt: "py_le v w \<Longrightarrow> w \<noteq> v \<Longrightarrow> py_lt v w"
  by (cases v; cases w) auto

lemma py_ge_not_gt: "py_ge v w \<Longrightarrow> \<not> py_gt w v"
  by (cases v; cases w) auto

lemma py_ge_neq_gt: "py_ge v w \<Longrightarrow> w \<noteq> v \<Longrightarrow> py_gt v w"
  by (cases v; cases w) auto

lemma min_by_value_first:
  "\<forall>p\<in>set (best # xs). py_le v (snd p) \<Longrightarrow> \<exists>p\<in>set (best # xs). snd p = v \<Longrightarrow>
   min_by_value best xs = hd (filter (\<lambda>p. snd p = v) (best # xs))"
proof (induction xs arbitrary: best)
  case Nil
  then show ?case by simp
next
  case (Cons x xs)
  let ?b = "if py_lt (snd x) (snd best) then x else best"
  show ?case
  proof (cases "snd best = v")
    case True
    with Cons.prems have "\<not> py_lt (snd x) (snd best)"
      by (simp add: py_le_not_lt)
    then have b: "?b = best" by simp
    have "min_by_value best xs = hd (filter (\<lambda>p. snd p = v) (best # xs))"
      using Cons.prems True by (intro Cons.IH) auto
    with b True show ?thesis by simp
  next
    case False
    show ?thesis
    proof (cases "snd x = v")
      case True
      with Cons.prems False have "py_lt (snd x) (snd best)"
        by (simp add: py_le_neq_lt)
      then have b: "?b = x" by simp
      have "min_by_value x xs = hd (filter (\<lambda>p. snd p = v) (x # xs))"
        using Cons.prems True by (intro Cons.IH) auto
      with b True False show ?thesis by simp
    next
      case x: False
      have "min_by_value ?b xs = hd (filter (\<lambda>p. snd p = v) (?b # xs))"
        using Cons.prems False x by (intro Cons.IH) auto
      with False x show ?thesis by simp
    qed
  qed
qed

lemma max_by_value_first:
  "\<forall>p\<in>set (best # xs). py_ge v (snd p) \<Longrightarrow> \<exists>p\<in>set (best # xs). snd p = v \<Longrightarrow>
   max_by_value best xs = hd (filter (\<lambda>p. snd p = v) (best # xs))"
proof (induction xs arbitrary: best)
  case Nil
  then show ?case by simp
next
  case (Cons x xs)
  let ?b = "if py_gt (snd x) (snd best) then x else best"
  show ?case
  proof (cases "snd best = v")
    case True
    with Cons.prems have "\<not> py_gt (snd x) (snd best)"
      by (simp add: py_ge_not_gt)
    then have b: "?b = best" by simp
    have "max_by_value best xs = hd (filter (\<lambda>p. snd p = v) (best # xs))"
      using Cons.prems True by (intro Cons.IH) auto
    with b True show ?thesis by simp
  next
    case False
    show ?thesis
    proof (cases "snd x = v")
      case True
      with Cons.prems False have "py_gt (snd x) (snd best)"
        by (simp add: py_ge_neq_gt)
      then have b: "?b = x" by simp
      have "max_by_value x xs = hd (filter (\<lambda>p. snd p = v) (x # xs))"
        using Cons.prems True by (intro Cons.IH) auto
      with b True False show ?thesis by simp
    next
      case x: False
      have "max_by_value ?b xs = hd (filter (\<lambda>p. snd p = v) (?b # xs))"
        using Cons.prems False x by (intro Cons.IH) auto
      with False x show ?thesis by simp
    qed
  qed
qed

section \<open>Monthly average properties\<close>

lemma month_average_fetched:
  assumes "METEOSTAT_AVAILABLE ms"
    and "1 \<le> start_year" and "start_year \<le> 9999" and "1 \<le> end_year" and "end_year \<le> 9999"
    and "daily ms station_id \<lparr>dt_year = start_year, dt_month = 1, dt_day = 1\<rparr>
           \<lparr>dt_year = end_year, dt_month = 12, dt_day = 31\<rparr> si_units = Inr df"
  shows "month_average col ms station_id start_year end_year min_days si_units
         = Inr (monthly_profile col df min_days)"
  using assms
  by (simp add: month_average_def check_meteostat_def datetime_new_def get_daily_data_def)

lemma month_average_profile:
  "month_average col ms station_id start_year end_year min_days si_units = Inr temps \<Longrightarrow>
   \<exists>df. temps = monthly_profile col df min_days"
  by (auto simp: month_average_def split: sum.splits)

text \<open>
  Claim C1 (as amended). Let \<open>month_average_temperature\<close> (column temp) or
  \<open>month_average_windspeed\<close> (column wspd) run on a fetched table, for any threshold
  \<open>min_days\<close>. For a month 1..12 with at least one contributing year, that is a year
  whose valid count for the month is at least \<open>min_days\<close> and at least 1, the month's
  entry is the sum of the contributing years' means divided by the number of
  contributing years: every contributing year has weight 1 whatever its day count. In
  particular, when exactly one year contributes, the entry is that year's mean.
\<close>

theorem monthly_average_mean_of_means:
  assumes "(f, col) = (month_average_temperature, temp) \<or> (f, col) = (month_average_windspeed, wspd)"
    and "METEOSTAT_AVAILABLE ms"
    and "1 \<le> start_year" and "start_year \<le> 9999" and "1 \<le> end_year" and "end_year \<le> 9999"
    and "daily ms station_id \<lparr>dt_year = start_year, dt_month = 1, dt_day = 1\<rparr>
           \<lparr>dt_year = end_year, dt_month = 12, dt_day = 31\<rparr> si_units = Inr (Some df)"
    and "1 \<le> m" and "m \<le> 12"
    and "contributing_years col df min_days m \<noteq> []"
  shows "\<exists>profile. f ms station_id start_year end_year min_days si_units = Inr profile
     \<and> profile ! (m - 1) = Some (Num (mean_of_means col df m (contributing_years col df min_days m)))
     \<and> (\<forall>y. contributing_years col df min_days m = [y] \<longrightarrow>
            profile ! (m - 1) = Some (Num (year_month_mean col df y m)))"
proof -
  have f: "f = month_average col"
    using assms(1) by (auto simp: month_average_temperature_def month_average_windspeed_def)
  have run: "f ms station_id start_year end_year min_days si_units
             = Inr (monthly_profile col (Some df) min_days)"
    unfolding f using assms(2-7) by (rule month_average_fetched)
  have "years_with_records df m \<noteq> []"
    using assms(10) by (auto simp: contributing_years_def)
  then have "df \<noteq> []"
    by (auto simp: years_with_records_def)
  from monthly_profile_entry [OF assms(8,9) this, of col min_days]
  have entry: "monthly_profile col (Some df) min_days ! (m - 1)
      = Some (Num (mean_of_means col df m (contributing_years col df min_days m)))"
    using assms(10) \<open>years_with_records df m \<noteq> []\<close> by simp
  have "\<forall>y. contributing_years col df min_days m = [y] \<longrightarrow>
      monthly_profile col (Some df) min_days ! (m - 1) = Some (Num (year_month_mean col df y m))"
    using entry by (auto simp: mean_of_means_def)
  with run entry show ?thesis by blast
qed

text \<open>
  The weighting example: January 2021 has 31 valid days of 31, January 2022 has 5 of 31,
  \<open>min_days\<close> is 23; the January entry is the mean of January 2021 alone.
\<close>

theorem monthly_average_mean_of_means_witness:
  "METEOSTAT_AVAILABLE (meteostat_with two_januaries)
   \<and> daily (meteostat_with two_januaries) ''72243'' \<lparr>dt_year = 2021, dt_month = 1, dt_day = 1\<rparr>
        \<lparr>dt_year = 2022, dt_month = 12, dt_day = 31\<rparr> True = Inr (Some two_januaries)
   \<and> valid_count temp two_januaries 2021 1 = 31
   \<and> valid_count temp two_januaries 2022 1 = 5
   \<and> length (month_cells temp two_januaries 2022 1) = 31
   \<and> contributing_years temp two_januaries 23 1 = [2021]
   \<and> year_month_mean temp two_januaries 2021 1 = 286
   \<and> (\<exists>profile. month_average_temperature (meteostat_with two_januaries) ''72243'' 2021 2022 23 True
          = Inr profile \<and> profile ! 0 = Some (Num 286))"
proof -
  have a: "METEOSTAT_AVAILABLE (meteostat_with two_januaries)"
    and d: "daily (meteostat_with two_januaries) ''72243'' \<lparr>dt_year = 2021, dt_month = 1, dt_day = 1\<rparr>
        \<lparr>dt_year = 2022, dt_month = 12, dt_day = 31\<rparr> True = Inr (Some two_januaries)"
    by (simp_all add: meteostat_with_def)
  have c1: "valid_count temp two_januaries 2021 1 = 31" by code_simp
  have c2: "valid_count temp two_januaries 2022 1 = 5" by code_simp
  have c3: "length (month_cells temp two_januaries 2022 1) = 31" by code_simp
  have q: "contributing_years temp two_januaries 23 1 = [2021]" by code_simp
  have mean: "year_month_mean temp two_januaries 2021 1 = 286" by code_simp
  have ne: "contributing_years temp two_januaries 23 1 \<noteq> []" using q by simp
  from monthly_average_mean_of_means [where f = month_average_temperature and col = temp
      and ms = "meteostat_with two_januaries" and station_id = "''72243''" and start_year = 2021
      and end_year = 2022 and si_units = True and df = two_januaries and m = 1 and min_days = 23,
      OF _ a _ _ _ _ d _ _ ne]
  have "\<exists>profile. month_average_temperature (meteostat_with two_januaries) ''72243'' 2021 2022 23 True
          = Inr profile \<and> profile ! 0 = Some (Num 286)"
    using q mean by auto
  with a d c1 c2 c3 q mean show ?thesis by simp
qed

text \<open>
  The claim as first stated takes every year whose valid count is at least \<open>min_days\<close>.
  With \<open>min_days = 0\<close>, January 2021 of \<open>gap_window\<close> qualifies with a count of 0, but it
  has no mean (pandas gives NaN) and the code leaves it out: the entry is the mean of
  January 2020 alone, not a mean over both qualifying years.
\<close>

theorem monthly_average_mean_of_means_counterexample:
  "month_average_temperature (meteostat_with gap_window) ''72243'' 2020 2021 0 True
     = Inr (Some (Num 10) # replicate 11 None)
   \<and> qualifying_years temp gap_window 0 1 = [2020, 2021]
   \<and> pd_mean (month_cells temp gap_window 2021 1) = NaN
   \<and> mean_over_qualifying temp gap_window 0 1 = NaN"
proof -
  have p: "monthly_profile temp (Some gap_window) 0 = Some (Num 10) # replicate 11 None"
    by code_simp
  have "month_average temp (meteostat_with gap_window) ''72243'' 2020 2021 0 True
        = Inr (monthly_profile temp (Some gap_window) 0)"
    by (rule month_average_fetched) (simp_all add: meteostat_with_def)
  with p have run: "month_average_temperature (meteostat_with gap_window) ''72243'' 2020 2021 0 True
     = Inr (Some (Num 10) # replicate 11 None)"
    by (simp add: month_average_temperature_def)
  have q: "qualifying_years temp gap_window 0 1 = [2020, 2021]" by code_simp
  have m1: "pd_mean (month_cells temp gap_window 2021 1) = NaN" by code_simp
  have "mean_over_qualifying temp gap_window 0 1 = NaN"
    by code_simp
  with run q m1 show ?thesis by simp
qed

text \<open>
  Claim C2 (the code at a failing input). The table holds ten days of January 2023,
  all with a temperature and none with a wind speed, and \<open>min_days\<close> is 23: no year
  qualifies for January, for either column. The January entry of the temperature
  profile is the float NaN, not None; and the wind speed profile, of a column that is
  absent from every record, has NaN for January as well.
\<close>

theorem monthly_average_unqualified_month_is_nan:
  "qualifying_years temp ten_days 23 1 = []
   \<and> month_average_temperature (meteostat_with ten_days) ''72243'' 2023 2023 23 True
       = Inr (Some NaN # replicate 11 None)
   \<and> qualifying_years wspd ten_days 23 1 = []
   \<and> month_average_windspeed (meteostat_with ten_days) ''72243'' 2023 2023 23 True
       = Inr (Some NaN # replicate 11 None)"
proof -
  have p: "monthly_profile temp (Some ten_days) 23 = Some NaN # replicate 11 None"
    by code_simp
  have p': "monthly_profile wspd (Some ten_days) 23 = Some NaN # replicate 11 None"
    by code_simp
  have fetched: "\<And>col. month_average col (meteostat_with ten_days) ''72243'' 2023 2023 23 True
        = Inr (monthly_profile col (Some ten_days) 23)"
    by (rule month_average_fetched) (simp_all add: meteostat_with_def)
  from p fetched have run: "month_average_temperature (meteostat_with ten_days) ''72243'' 2023 2023 23 True
     = Inr (Some NaN # replicate 11 None)"
    by (simp add: month_average_temperature_def)
  from p' fetched have run': "month_average_windspeed (meteostat_with ten_days) ''72243'' 2023 2023 23 True
     = Inr (Some NaN # replicate 11 None)"
    by (simp add: month_average_windspeed_def)
  have q: "qualifying_years temp ten_days 23 1 = []" by code_simp
  have q': "qualifying_years wspd ten_days 23 1 = []" by code_simp
  from q run q' run' show ?thesis by simp
qed

section \<open>Extreme month properties\<close>

lemma month_average_temperature_length:
  "month_average_temperature ms station_id start_year end_year min_days si_units = Inr temps \<Longrightarrow>
   length temps = 12"
  unfolding month_average_temperature_def
  by (drule month_average_profile) (auto simp: monthly_profile_length)

lemma valid_from_nonempty:
  "\<exists>t\<in>set ts. t \<noteq> None \<Longrightarrow> \<exists>p ps. valid_from 0 ts = p # ps"
  using valid_from_empty [of 0 ts] by (cases "valid_from 0 ts") auto

lemma valid_from_entry:
  "(i, v) \<in> set (valid_from 0 ts) \<Longrightarrow> i < length ts \<and> ts ! i = Some v"
  by (simp add: valid_from_mem)

lemma month_average_temperature_with:
  "1 \<le> start_year \<Longrightarrow> start_year \<le> 9999 \<Longrightarrow> 1 \<le> end_year \<Longrightarrow> end_year \<le> 9999 \<Longrightarrow>
   month_average_temperature (meteostat_with df) station_id start_year end_year min_days si_units
   = Inr (monthly_profile temp (Some df) min_days)"
  unfolding month_average_temperature_def
  by (rule month_average_fetched) (simp_all add: meteostat_with_def)

text \<open>
  With respect to None the scan does what it says: the ValueError is raised exactly
  when every entry of the profile is None, and otherwise the result is an entry of the
  profile that is not None.
\<close>

lemma extreme_month_value_error:
  assumes "month_average_temperature ms station_id start_year
             (case end_year of None \<Rightarrow> start_year | Some y \<Rightarrow> y) min_days si_units = Inr temps"
  shows "length temps = 12
    \<and> (coldest_month ms station_id start_year end_year min_days si_units
          = Inl (ValueError ''No valid temperature data'') \<longleftrightarrow> (\<forall>t\<in>set temps. t = None))
    \<and> (warmest_month ms station_id start_year end_year min_days si_units
          = Inl (ValueError ''No valid temperature data'') \<longleftrightarrow> (\<forall>t\<in>set temps. t = None))
    \<and> ((\<exists>t\<in>set temps. t \<noteq> None) \<longrightarrow>
          (\<exists>i v. coldest_month ms station_id start_year end_year min_days si_units = Inr (i, v)
                 \<and> i < 12 \<and> temps ! i = Some v)
        \<and> (\<exists>i v. warmest_month ms station_id start_year end_year min_days si_units = Inr (i, v)
                 \<and> i < 12 \<and> temps ! i = Some v))"
proof -
  have len: "length temps = 12"
    using assms by (rule month_average_temperature_length)
  have cold: "coldest_month ms station_id start_year end_year min_days si_units
      = (case valid_from 0 temps of [] \<Rightarrow> Inl (ValueError ''No valid temperature data'')
         | v # vs \<Rightarrow> Inr (min_by_value v vs))"
    using assms by (simp add: coldest_month_def Let_def)
  have warm: "warmest_month ms station_id start_year end_year min_days si_units
      = (case valid_from 0 temps of [] \<Rightarrow> Inl (ValueError ''No valid temperature data'')
         | v # vs \<Rightarrow> Inr (max_by_value v vs))"
    using assms by (simp add: warmest_month_def Let_def)
  have c_iff: "coldest_month ms station_id start_year end_year min_days si_units
          = Inl (ValueError ''No valid temperature data'') \<longleftrightarrow> (\<forall>t\<in>set temps. t = None)"
    unfolding cold using valid_from_empty [of 0 temps] by (cases "valid_from 0 temps") auto
  have w_iff: "warmest_month ms station_id start_year end_year min_days si_units
          = Inl (ValueError ''No valid temperature data'') \<longleftrightarrow> (\<forall>t\<in>set temps. t = None)"
    unfolding warm using valid_from_empty [of 0 temps] by (cases "valid_from 0 temps") auto
  have some: "(\<exists>t\<in>set temps. t \<noteq> None) \<longrightarrow>
          (\<exists>i v. coldest_month ms station_id start_year end_year min_days si_units = Inr (i, v)
                 \<and> i < 12 \<and> temps ! i = Some v)
        \<and> (\<exists>i v. warmest_month ms station_id start_year end_year min_days si_units = Inr (i, v)
                 \<and> i < 12 \<and> temps ! i = Some v)"
  proof
    assume "\<exists>t\<in>set temps. t \<noteq> None"
    then obtain p ps where v: "valid_from 0 temps = p # ps"
      using valid_from_nonempty by blast
    obtain i x where m: "min_by_value p ps = (i, x)" by (cases "min_by_value p ps") auto
    obtain j y where n: "max_by_value p ps = (j, y)" by (cases "max_by_value p ps") auto
    have "(i, x) \<in> set (valid_from 0 temps)"
      using min_by_value_mem [of p ps] m v by simp
    then have ix: "i < 12 \<and> temps ! i = Some x"
      using valid_from_entry len by fastforce
    have "(j, y) \<in> set (valid_from 0 temps)"
      using max_by_value_mem [of p ps] n v by simp
    then have jy: "j < 12 \<and> temps ! j = Some y"
      using valid_from_entry len by fastforce
    from ix jy m n v show "(\<exists>i v. coldest_month ms station_id start_year end_year min_days si_units = Inr (i, v)
                 \<and> i < 12 \<and> temps ! i = Some v)
        \<and> (\<exists>i v. warmest_month ms station_id start_year end_year min_days si_units = Inr (i, v)
                 \<and> i < 12 \<and> temps ! i = Some v)"
      by (simp add: cold warm)
  qed
  from len c_iff w_iff some show ?thesis by blast
qed

text \<open>
  Claim C4 (the code at a failing input). With ten valid days in January 2023 and
  \<open>min_days = 23\<close> no month has a valid average, yet \<open>coldest_month\<close> and
  \<open>warmest_month\<close> raise nothing and return (0, NaN): the January entry is NaN, which
  is not None and passes the filter. With all of February 2023 added, February has a
  valid average of 285, and both functions still return (0, NaN), because no float is
  smaller or greater than NaN.
\<close>

theorem extreme_month_nan_result:
  "month_average_temperature (meteostat_with ten_days) ''72243'' 2023 2023 23 True
     = Inr (Some NaN # replicate 11 None)
   \<and> coldest_month (meteostat_with ten_days) ''72243'' 2023 None 23 True = Inr (0, NaN)
   \<and> warmest_month (meteostat_with ten_days) ''72243'' 2023 None 23 True = Inr (0, NaN)
   \<and> month_average_temperature (meteostat_with short_january) ''72243'' 2023 2023 23 True
     = Inr (Some NaN # Some (Num 285) # replicate 10 None)
   \<and> coldest_month (meteostat_with short_january) ''72243'' 2023 None 23 True = Inr (0, NaN)
   \<and> warmest_month (meteostat_with short_january) ''72243'' 2023 None 23 True = Inr (0, NaN)"
proof -
  have p: "monthly_profile temp (Some ten_days) 23 = Some NaN # replicate 11 None"
    by code_simp
  have q: "monthly_profile temp (Some short_january) 23 = Some NaN # Some (Num 285) # replicate 10 None"
    by code_simp
  have t: "month_average_temperature (meteostat_with ten_days) ''72243'' 2023 2023 23 True
     = Inr (Some NaN # replicate 11 None)"
    using p by (simp add: month_average_temperature_with)
  have u: "month_average_temperature (meteostat_with short_january) ''72243'' 2023 2023 23 True
     = Inr (Some NaN # Some (Num 285) # replicate 10 None)"
    using q by (simp add: month_average_temperature_with)
  have c1: "coldest_month (meteostat_with ten_days) ''72243'' 2023 None 23 True = Inr (0, NaN)"
    using t by (simp add: coldest_month_def numeral_eq_Suc)
  have w1: "warmest_month (meteostat_with ten_days) ''72243'' 2023 None 23 True = Inr (0, NaN)"
    using t by (simp add: warmest_month_def numeral_eq_Suc)
  have c2: "coldest_month (meteostat_with short_january) ''72243'' 2023 None 23 True = Inr (0, NaN)"
    using u by (simp add: coldest_month_def numeral_eq_Suc)
  have w2: "warmest_month (meteostat_with short_january) ''72243'' 2023 None 23 True = Inr (0, NaN)"
    using u by (simp add: warmest_month_def numeral_eq_Suc)
  from t c1 w1 u c2 w2 show ?thesis by simp
qed

text \<open>
  On a profile whose entries other than None are all numbers the scan breaks ties as it
  should. Let v be less than or equal to (for the warmest month, greater than or equal
  to) every entry that is not None, in the order Python compares floats with; no such v
  exists once an entry is NaN. Let i be the first index that holds v. Then
  \<open>coldest_month\<close> (for the warmest month, \<open>warmest_month\<close>) returns (i, v).
\<close>

lemma extreme_month_first_of_least:
  assumes "month_average_temperature ms station_id start_year
             (case end_year of None \<Rightarrow> start_year | Some y \<Rightarrow> y) min_days si_units = Inr temps"
    and "i < length temps" and "temps ! i = Some v" and "\<forall>j<i. temps ! j \<noteq> Some v"
  shows "((\<forall>w. Some w \<in> set temps \<longrightarrow> py_le v w) \<longrightarrow>
            coldest_month ms station_id start_year end_year min_days si_units = Inr (i, v))
    \<and> ((\<forall>w. Some w \<in> set temps \<longrightarrow> py_ge v w) \<longrightarrow>
            warmest_month ms station_id start_year end_year min_days si_units = Inr (i, v))"
proof -
  have "Some v \<in> set temps"
    using assms(2,3) by (metis nth_mem)
  then have "\<exists>t\<in>set temps. t \<noteq> None" by force
  then obtain p ps where v: "valid_from 0 temps = p # ps"
    using valid_from_nonempty by blast
  have first: "hd (filter (\<lambda>q. snd q = v) (p # ps)) = (i, v)"
    using valid_from_first [OF assms(2,3,4), of 0] v by simp
  have occurs: "\<exists>q\<in>set (p # ps). snd q = v"
  proof -
    have "(i, v) \<in> set (valid_from 0 temps)"
      using assms(2,3) by (simp add: valid_from_mem)
    then show ?thesis unfolding v by force
  qed
  have entries: "\<And>q. q \<in> set (p # ps) \<Longrightarrow> Some (snd q) \<in> set temps"
  proof -
    fix q assume "q \<in> set (p # ps)"
    then have "(fst q, snd q) \<in> set (valid_from 0 temps)" using v by simp
    then have "fst q < length temps \<and> temps ! fst q = Some (snd q)"
      by (rule valid_from_entry)
    then show "Some (snd q) \<in> set temps" by (metis nth_mem)
  qed
  have cold: "(\<forall>w. Some w \<in> set temps \<longrightarrow> py_le v w) \<longrightarrow>
            coldest_month ms station_id start_year end_year min_days si_units = Inr (i, v)"
  proof
    assume "\<forall>w. Some w \<in> set temps \<longrightarrow> py_le v w"
    then have "\<forall>q\<in>set (p # ps). py_le v (snd q)"
      using entries by blast
    from min_by_value_first [OF this occurs] first
    have "min_by_value p ps = (i, v)" by simp
    then show "coldest_month ms station_id start_year end_year min_days si_units = Inr (i, v)"
      using assms(1) v by (simp add: coldest_month_def Let_def)
  qed
  have warm: "(\<forall>w. Some w \<in> set temps \<longrightarrow> py_ge v w) \<longrightarrow>
            warmest_month ms station_id start_year end_year min_days si_units = Inr (i, v)"
  proof
    assume "\<forall>w. Some w \<in> set temps \<longrightarrow> py_ge v w"
    then have "\<forall>q\<in>set (p # ps). py_ge v (snd q)"
      using entries by blast
    from max_by_value_first [OF this occurs] first
    have "max_by_value p ps = (i, v)" by simp
    then show "warmest_month ms station_id start_year end_year min_days si_units = Inr (i, v)"
      using assms(1) v by (simp add: warmest_month_def Let_def)
  qed
  from cold warm show ?thesis ..
qed

lemma extreme_month_first_of_least_example:
  "month_average_temperature (meteostat_with tied_window) ''72243'' 2021 2021 1 True
     = Inr ([Some (Num 280), Some (Num 290), Some (Num 280), Some (Num 290)] @ replicate 8 None)
   \<and> coldest_month (meteostat_with tied_window) ''72243'' 2021 None 1 True = Inr (0, Num 280)
   \<and> warmest_month (meteostat_with tied_window) ''72243'' 2021 None 1 True = Inr (1, Num 290)"
proof -
  let ?temps = "[Some (Num 280), Some (Num 290), Some (Num 280), Some (Num 290)] @ replicate 8 None"
  have p: "monthly_profile temp (Some tied_window) 1 = ?temps"
    by code_simp
  then have t: "month_average_temperature (meteostat_with tied_window) ''72243'' 2021 2021 1 True
       = Inr ?temps"
    by (simp add: month_average_temperature_with)
  then have t': "month_average_temperature (meteostat_with tied_window) ''72243'' 2021
        (case None of None \<Rightarrow> 2021 | Some y \<Rightarrow> y) 1 True = Inr ?temps"
    by simp
  have least: "\<forall>w. Some w \<in> set ?temps \<longrightarrow> py_le (Num 280) w"
    by auto
  have greatest: "\<forall>w. Some w \<in> set ?temps \<longrightarrow> py_ge (Num 290) w"
    by auto
  from extreme_month_first_of_least [OF t', of 0 "Num 280"] least
  have c: "coldest_month (meteostat_with tied_window) ''72243'' 2021 None 1 True = Inr (0, Num 280)"
    by simp
  from extreme_month_first_of_least [OF t', of 1 "Num 290"] greatest
  have w: "warmest_month (meteostat_with tied_window) ''72243'' 2021 None 1 True = Inr (1, Num 290)"
    by simp
  from t c w show ?thesis by simp
qed

text \<open>
  Claim C8 (the code at a failing input). January 2023 has ten valid days, February
  and March average 280, April and May average 290, and \<open>min_days\<close> is 23. The lowest
  average is shared by February and March and the highest by April and May, so the
  first tied entries are (1, 280) and (3, 290). The January entry is NaN, it is the
  first entry that is not None, and no float compares below or above it:
  \<open>coldest_month\<close> and \<open>warmest_month\<close> both return (0, NaN), which is neither the first
  tied entry nor a tied entry at all.
\<close>

theorem extreme_month_tie_behind_nan:
  "month_average_temperature (meteostat_with ties_behind_short_january) ''72243'' 2023 2023 23 True
     = Inr ([Some NaN, Some (Num 280), Some (Num 280), Some (Num 290), Some (Num 290)]
            @ replicate 7 None)
   \<and> coldest_month (meteostat_with ties_behind_short_january) ''72243'' 2023 None 23 True
       = Inr (0, NaN)
   \<and> warmest_month (meteostat_with ties_behind_short_january) ''72243'' 2023 None 23 True
       = Inr (0, NaN)"
proof -
  have p: "monthly_profile temp (Some ties_behind_short_january) 23
      = [Some NaN, Some (Num 280), Some (Num 280), Some (Num 290), Some (Num 290)] @ replicate 7 None"
    by code_simp
  have t: "month_average_temperature (meteostat_with ties_behind_short_january) ''72243'' 2023 2023 23 True
     = Inr ([Some NaN, Some (Num 280), Some (Num 280), Some (Num 290), Some (Num 290)]
            @ replicate 7 None)"
    using p by (simp add: month_average_temperature_with)
  have c: "coldest_month (meteostat_with ties_behind_short_january) ''72243'' 2023 None 23 True
       = Inr (0, NaN)"
    using t by (simp add: coldest_month_def numeral_eq_Suc)
  have w: "warmest_month (meteostat_with ties_behind_short_january) ''72243'' 2023 None 23 True
       = Inr (0, NaN)"
    using t by (simp add: warmest_month_def numeral_eq_Suc)
  from t c w show ?thesis by simp
qed

end
